theory Spec2Isabelle
  imports Complex_Main "HOL-Library.List_Lexorder" "HOL-Library.Char_ord"
    "HOL-Library.Product_Lexorder" "HOL-Library.Log_Nat"
begin

section \<open>Data model\<close>

text \<open>
  The repository keeps its tables in pandas frames. A frame with the transaction columns
  is a list of rows, in row order; the empty list is the frame with those columns and no
  row. Python ints are \<open>int\<close>. Python strings are lists of code points; every code point
  the sources use is below 256 and is one \<open>char\<close>.

  A Python float is a binary64 double, and an amount of the model is the real number the
  double denotes. An operation on single values (a product, a quotient, rounding to
  cents) is done exactly here; a rounded amount is the number of cents itself, where the
  code holds the double next to it. The sum of a column is not exact: the order of its additions
  and the rounding of each are the library's, they differ between \<open>Series.sum\<close> and the
  sum of a \<open>groupby\<close>, and the outcome decides comparisons the code makes. So the two
  sums are parameters of the functions that call them; \<open>sum_list\<close> is the exact sum and
  \<open>double_sum\<close>, defined below, the sum in binary64 taken from left to right.

  The \<open>date\<close> column holds a calendar day. The generator writes it as the text
  \<open>YYYY-MM-DD\<close>, the analysis reads it back as a timestamp; both are ordered as the
  days are, so the model keeps the day itself, as its proleptic Gregorian ordinal.
\<close>

type_synonym date = int

record transaction =
  transaction_id :: string
  date :: date
  customer_id :: string
  category :: string
  product :: string
  quantity :: int
  unit_price :: real
  total_amount :: real
  region :: string
  payment_method :: string
  status :: string

text \<open>A missing value (pandas \<open>NaN\<close>) of the customer table's date is \<open>None\<close>.\<close>

record customer =
  cust_customer_id :: string
  first_purchase_date :: "date option"
  total_purchases :: int
  total_spent :: real
  segment :: string

text \<open>The exceptions the modelled code can raise.\<close>

datatype py_error = KeyError string | IndexError | ZeroDivisionError

definition ebind :: "py_error + 'a \<Rightarrow> ('a \<Rightarrow> py_error + 'b) \<Rightarrow> py_error + 'b" where
  "ebind m f = (case m of Inl e \<Rightarrow> Inl e | Inr x \<Rightarrow> f x)"

subsection \<open>The string constants of the sources\<close>

definition Complete :: string where
  "Complete = ''Compl'' @ [CHR 0xE9] @ ''t'' @ [CHR 0xE9]"

definition Annule :: string where
  "Annule = ''Annul'' @ [CHR 0xE9]"

definition Rembourse :: string where
  "Rembourse = ''Rembours'' @ [CHR 0xE9]"

definition Electronique :: string where
  "Electronique = [CHR 0xC9] @ ''lectronique''"

definition Vetements :: string where
  "Vetements = ''V'' @ [CHR 0xEA] @ ''tements''"

definition Maison_Jardin :: string where
  "Maison_Jardin = ''Maison & Jardin''"

definition Sports_Loisirs :: string where
  "Sports_Loisirs = ''Sports & Loisirs''"

definition Livres :: string where
  "Livres = ''Livres''"

definition Premium :: string where
  "Premium = ''Premium''"

definition Regulier :: string where
  "Regulier = ''R'' @ [CHR 0xE9] @ ''gulier''"

definition Occasionnel :: string where
  "Occasionnel = ''Occasionnel''"

definition CATEGORIES :: "string list" where
  "CATEGORIES = [Electronique, Vetements, Maison_Jardin, Sports_Loisirs, Livres]"

definition PRODUCTS :: "(string \<times> string list) list" where
  "PRODUCTS =
    [(Electronique, [''Smartphone'', ''Laptop'', ''Tablette'', [CHR 0xC9] @ ''couteurs'',
        ''Montre connect'' @ [CHR 0xE9] @ ''e'', ''Enceinte Bluetooth'']),
     (Vetements, [''T-shirt'', ''Jean'', ''Robe'', ''Veste'', ''Chaussures'',
        ''Sac '' @ [CHR 0xE0] @ '' main'']),
     (Maison_Jardin, [''Aspirateur'', ''Cafeti'' @ [CHR 0xE8] @ ''re'', ''Lampe'', ''Coussin'',
        ''Plante'', ''Bougie'']),
     (Sports_Loisirs, [''Ballon'', ''Tapis de yoga'', ''V'' @ [CHR 0xE9] @ ''lo'', ''Raquette'',
        ''Sac de sport'', ''Gourde'']),
     (Livres, [''Roman'', ''BD'', ''Guide pratique'', ''Biographie'', ''Science-fiction'',
        ''Cuisine''])]"

definition REGIONS :: "string list" where
  "REGIONS =
    [[CHR 0xCE] @ ''le-de-France'', ''Auvergne-Rh'' @ [CHR 0xF4] @ ''ne-Alpes'',
     ''Provence-Alpes-C'' @ [CHR 0xF4] @ ''te d'' @ [CHR 0x27] @ ''Azur'',
     ''Nouvelle-Aquitaine'', ''Occitanie'', ''Hauts-de-France'', ''Bretagne'', ''Grand Est'']"

definition PAYMENT_METHODS :: "string list" where
  "PAYMENT_METHODS = [''Carte bancaire'', ''PayPal'', ''Virement'', ''Apple Pay'']"

section \<open>Python and library operations the sources call\<close>

text \<open>\<open>d[k]\<close> on a dict: \<open>KeyError\<close> when the key is absent.\<close>

definition dict_get :: "(string \<times> 'v) list \<Rightarrow> string \<Rightarrow> py_error + 'v" where
  "dict_get d k = (case map_of d k of None \<Rightarrow> Inl (KeyError k) | Some v \<Rightarrow> Inr v)"

text \<open>\<open>int(x)\<close> on a float truncates towards zero.\<close>

definition py_int :: "real \<Rightarrow> int" where
  "py_int x = (if 0 \<le> x then \<lfloor>x\<rfloor> else \<lceil>x\<rceil>)"

text \<open>
  \<open>round(x, 2)\<close>: the multiple of 0.01 nearest to the value of the double \<open>x\<close>, a tie
  going to the even one. A tie is a double whose value lies exactly between two cents,
  as 0.125 does. A decimal such as 8.345 is not a double: the literal denotes the double
  next to it, which lies above it and is rounded to 8.35. (On a numpy float the code
  multiplies by 100 in binary64 before it rounds, so that a double within one rounding
  error of a tie can go to either cent; the model takes the nearest.)
\<close>

definition py_round :: "real \<Rightarrow> int" where
  "py_round x =
     (let f = \<lfloor>x\<rfloor>; d = x - of_int f in
      if d < 1 / 2 then f else if 1 / 2 < d then f + 1 else if even f then f else f + 1)"

definition round2 :: "real \<Rightarrow> real" where
  "round2 x = of_int (py_round (x * 100)) / 100"

text \<open>The format specs \<open>:04d\<close> and \<open>:06d\<close>: decimal digits, zero-padded to the width.\<close>

fun digits_of :: "nat \<Rightarrow> string" where
  "digits_of n =
     (if n < 10 then [''0123456789'' ! n]
      else digits_of (n div 10) @ [''0123456789'' ! (n mod 10)])"

declare digits_of.simps [simp del]

definition zero_pad :: "nat \<Rightarrow> string \<Rightarrow> string" where
  "zero_pad w s = replicate (w - length s) (CHR ''0'') @ s"

definition format_d :: "nat \<Rightarrow> int \<Rightarrow> string" where
  "format_d w v =
     (if v < 0 then ''-'' @ zero_pad (w - 1) (digits_of (nat (- v)))
      else zero_pad w (digits_of (nat v)))"

text \<open>
  A \<open>datetime\<close>: the day (proleptic Gregorian ordinal) and the time of day in
  microseconds. Adding or subtracting \<open>timedelta(days=k)\<close> moves the day only, and
  \<open>strftime('%Y-%m-%d')\<close> reads the day only.
\<close>

record datetime =
  dt_day :: int
  dt_time :: nat

definition minus_days :: "datetime \<Rightarrow> int \<Rightarrow> datetime" where
  "minus_days t k = t\<lparr>dt_day := dt_day t - k\<rparr>"

definition plus_days :: "datetime \<Rightarrow> int \<Rightarrow> datetime" where
  "plus_days t k = t\<lparr>dt_day := dt_day t + k\<rparr>"

definition strftime_ymd :: "datetime \<Rightarrow> date" where
  "strftime_ymd t = dt_day t"

subsection \<open>Sums of columns\<close>

text \<open>
  The sum of an \<open>int64\<close> column wraps around at 64 bits. (The number of rows of a frame is
  below \<open>2 ^ 63\<close>, so a sum of row counts is the exact sum.)
\<close>

definition int64_wrap :: "int \<Rightarrow> int" where
  "int64_wrap n = (n + 2 ^ 63) mod 2 ^ 64 - 2 ^ 63"

definition int64_sum :: "int list \<Rightarrow> int" where
  "int64_sum xs = int64_wrap (sum_list xs)"

text \<open>How far a sum of floats, as some summation \<open>s\<close> computes it, is from the exact sum.\<close>

definition sum_error :: "(real list \<Rightarrow> real) \<Rightarrow> real list \<Rightarrow> real" where
  "sum_error s xs = \<bar>s xs - sum_list xs\<bar>"

text \<open>
  Binary64 arithmetic, for magnitudes in the normal range: \<open>to_double x\<close> is the double
  nearest to \<open>x\<close>, a tie going to the even significand of 53 bits. It is the double a
  decimal literal denotes, and the result of an addition of two doubles is \<open>to_double\<close> of
  their exact sum. \<open>double_sum\<close> adds a column from left to right, starting from 0, as a
  plain loop over doubles does. It is the instance of the two sums used in the examples,
  on columns of at most three values.
\<close>

definition pow2 :: "int \<Rightarrow> real" where
  "pow2 k = (if 0 \<le> k then 2 ^ nat k else 1 / 2 ^ nat (- k))"

definition binary_exponent :: "real \<Rightarrow> int" where
  "binary_exponent x =
     (if 1 \<le> \<bar>x\<bar> then int (floorlog 2 (nat \<lfloor>\<bar>x\<bar>\<rfloor>)) - 1
      else - int (floorlog 2 (nat (\<lceil>1 / \<bar>x\<bar>\<rceil> - 1))))"

definition to_double :: "real \<Rightarrow> real" where
  "to_double x =
     (if x = 0 then 0
      else let ulp = pow2 (binary_exponent x - 52) in of_int (py_round (x / ulp)) * ulp)"

fun double_sum_from :: "real \<Rightarrow> real list \<Rightarrow> real" where
  "double_sum_from s [] = s"
| "double_sum_from s (x # xs) = double_sum_from (to_double (s + x)) xs"

definition double_sum :: "real list \<Rightarrow> real" where
  "double_sum xs = double_sum_from 0 xs"

subsection \<open>The random generators\<close>

text \<open>
  The two seeded generators (\<open>random\<close> and \<open>np.random\<close>) are sources of values: what
  they return to one pass of the generation loop is a record of draws, and the function
  \<open>nat \<Rightarrow> draws\<close> giving every pass its draws stands for the seeded generator state.
  A draw is the primitive value behind the library call: the index
  \<open>_randbelow(len(seq))\<close> picks in \<open>random.choice(seq)\<close>, the offset \<open>_randbelow(b - a + 1)\<close>
  in \<open>random.randint(a, b)\<close>, the sample \<open>random()\<close> in \<open>random.uniform(a, b)\<close>, the index
  \<open>np.random.choice(a, p=p)\<close> selects, and the value of \<open>np.random.exponential(200)\<close>.
\<close>

record draws =
  np_exponential :: real
  rand_day :: nat
  rand_category :: nat
  rand_product :: nat
  rand_base :: real
  np_quantity :: nat
  rand_jitter :: real
  rand_customer :: nat
  rand_region :: nat
  rand_payment :: nat
  np_status :: nat

definition random_choice :: "'a list \<Rightarrow> nat \<Rightarrow> py_error + 'a" where
  "random_choice seq k = (if k < length seq then Inr (seq ! k) else Inl IndexError)"

definition random_randint :: "int \<Rightarrow> int \<Rightarrow> nat \<Rightarrow> int" where
  "random_randint a b k = a + int k"

definition random_uniform :: "real \<Rightarrow> real \<Rightarrow> real \<Rightarrow> real" where
  "random_uniform a b u = a + (b - a) * u"

text \<open>The weights \<open>p\<close> decide how often an index is selected, not what it selects.\<close>

definition np_random_choice :: "'a list \<Rightarrow> real list \<Rightarrow> nat \<Rightarrow> py_error + 'a" where
  "np_random_choice a p k = (if k < length a then Inr (a ! k) else Inl IndexError)"

text \<open>
  What the libraries guarantee of the draws of one pass: an index is below the length of
  its sequence, an offset is inside its range, a sample is in \<open>[0, 1)\<close>, an exponential
  variate is not negative.
\<close>

definition draws_ok :: "draws \<Rightarrow> bool" where
  "draws_ok d \<longleftrightarrow>
     0 \<le> np_exponential d \<and> rand_day d < 731 \<and>
     rand_category d < 5 \<and> rand_product d < 6 \<and>
     0 \<le> rand_base d \<and> rand_base d < 1 \<and>
     np_quantity d < 5 \<and>
     0 \<le> rand_jitter d \<and> rand_jitter d < 1 \<and>
     rand_customer d < 1000 \<and> rand_region d < 8 \<and> rand_payment d < 4 \<and>
     np_status d < 3"

section \<open>generate_data.py\<close>

text \<open>
  One pass of the loop of \<open>generate_ecommerce_data\<close>, for the index \<open>i\<close>. The products and
  the sum inside \<open>random.uniform\<close> are exact here; in binary64 they can differ in the last
  bit, and a price next to a rounding boundary by one cent. No property below depends on
  the cent.
\<close>

definition generate_row :: "datetime \<Rightarrow> nat \<Rightarrow> draws \<Rightarrow> py_error + transaction" where
  "generate_row start_date i d =
     (let days_offset = py_int (np_exponential d);
          days_offset = (if 730 < days_offset then random_randint 0 730 (rand_day d)
                         else days_offset);
          transaction_date = plus_days start_date days_offset
      in
      ebind (random_choice CATEGORIES (rand_category d)) (\<lambda>category.
      ebind (dict_get PRODUCTS category) (\<lambda>products.
      ebind (random_choice products (rand_product d)) (\<lambda>product.
      let base_price =
            (if category = Electronique then random_uniform 50 1200 (rand_base d)
             else if category = Vetements then random_uniform 15 150 (rand_base d)
             else if category = Maison_Jardin then random_uniform 10 300 (rand_base d)
             else if category = Sports_Loisirs then random_uniform 10 500 (rand_base d)
             else random_uniform 5 50 (rand_base d))
      in
      ebind (np_random_choice [1, 2, 3, 4, 5] [0.5, 0.25, 0.15, 0.07, 0.03] (np_quantity d))
        (\<lambda>quantity.
      let price = round2 (base_price * random_uniform 0.9 1.1 (rand_jitter d));
          total = round2 (price * of_int quantity);
          customer_id = ''CUST_'' @ format_d 4 (random_randint 1 1000 (rand_customer d))
      in
      ebind (random_choice REGIONS (rand_region d)) (\<lambda>region.
      ebind (random_choice PAYMENT_METHODS (rand_payment d)) (\<lambda>payment.
      ebind (np_random_choice [Complete, Annule, Rembourse] [0.95, 0.03, 0.02] (np_status d))
        (\<lambda>status.
      Inr \<lparr>transaction_id = ''TXN_'' @ format_d 6 (int i + 1),
           date = strftime_ymd transaction_date,
           customer_id = customer_id,
           category = category,
           product = product,
           quantity = quantity,
           unit_price = price,
           total_amount = (if status = Complete then total else 0),
           region = region,
           payment_method = payment,
           status = status\<rparr>))))))))"

text \<open>The loop over \<open>range(n_transactions)\<close>, appending to \<open>data\<close>; an exception ends it.\<close>

fun generate_loop ::
  "datetime \<Rightarrow> (nat \<Rightarrow> draws) \<Rightarrow> nat list \<Rightarrow> transaction list \<Rightarrow> py_error + transaction list"
where
  "generate_loop start_date rng [] data = Inr data"
| "generate_loop start_date rng (i # is) data =
     (case generate_row start_date i (rng i) of
        Inl e \<Rightarrow> Inl e
      | Inr row \<Rightarrow> generate_loop start_date rng is (data @ [row]))"

text \<open>
  \<open>pd.DataFrame(data)\<close> takes its columns from the rows: built from the empty list it
  has no column, and \<open>sort_values('date')\<close> raises \<open>KeyError('date')\<close>. With a row, the
  frame is sorted by date, ascending; rows of one date are kept here in the order they
  were generated, where the default sort of pandas may order them otherwise. No property
  below depends on their order.
\<close>

definition generate_ecommerce_data ::
  "datetime \<Rightarrow> (nat \<Rightarrow> draws) \<Rightarrow> int \<Rightarrow> py_error + transaction list"
where
  "generate_ecommerce_data now rng n_transactions =
     (let start_date = minus_days now 730 in
      case generate_loop start_date rng [0..<nat n_transactions] [] of
        Inl e \<Rightarrow> Inl e
      | Inr data \<Rightarrow> if data = [] then Inl (KeyError ''date'') else Inr (sort_key date data))"

text \<open>\<open>Series.unique()\<close>: the distinct values, in the order they first appear.\<close>

fun unique :: "'a list \<Rightarrow> 'a list" where
  "unique [] = []"
| "unique (x # xs) = x # unique (filter (\<lambda>y. y \<noteq> x) xs)"

text \<open>\<open>Series.min()\<close>: the least value, \<open>NaN\<close> for a series with no value.\<close>

fun series_min :: "'a::linorder list \<Rightarrow> 'a option" where
  "series_min [] = None"
| "series_min (x # xs) = Some (fold min xs x)"

text \<open>
  \<open>series_sum\<close> is \<open>Series.sum\<close> on the float column \<open>total_amount\<close>. The thresholds of the
  segment are compared with the sum itself; the row stores the sum rounded to cents.
\<close>

definition generate_customer_data ::
  "(real list \<Rightarrow> real) \<Rightarrow> transaction list \<Rightarrow> customer list"
where
  "generate_customer_data series_sum transactions_df =
     map (\<lambda>cid.
       let first_purchase =
             series_min (map date (filter (\<lambda>t. customer_id t = cid) transactions_df));
           n_purchases = int (length (filter (\<lambda>t. customer_id t = cid) transactions_df));
           spent = series_sum (map total_amount
             (filter (\<lambda>t. customer_id t = cid \<and> status t = Complete) transactions_df));
           seg = (if 2000 < spent then Premium
                  else if 500 < spent then Regulier
                  else Occasionnel)
       in \<lparr>cust_customer_id = cid,
           first_purchase_date = first_purchase,
           total_purchases = n_purchases,
           total_spent = round2 spent,
           segment = seg\<rparr>)
     (unique (map customer_id transactions_df))"

text \<open>
  The script's entry point generates the transactions, then derives the customers from
  them, and writes both tables out; the script passes \<open>n_transactions=5000\<close>. The two
  tables are the result here, the number of transactions a parameter.
\<close>

definition generate_tables ::
  "(real list \<Rightarrow> real) \<Rightarrow> datetime \<Rightarrow> (nat \<Rightarrow> draws) \<Rightarrow> int
    \<Rightarrow> py_error + transaction list \<times> customer list"
where
  "generate_tables series_sum now rng n =
     ebind (generate_ecommerce_data now rng n) (\<lambda>transactions.
       Inr (transactions, generate_customer_data series_sum transactions))"

section \<open>analysis.py\<close>

subsection \<open>The pandas operations\<close>

text \<open>
  \<open>Series.mean()\<close>: the sum of the series over the number of its values, \<open>NaN\<close> (here
  \<open>None\<close>) for a series with no value.
\<close>

definition series_mean :: "(real list \<Rightarrow> real) \<Rightarrow> real list \<Rightarrow> real option" where
  "series_mean series_sum xs =
     (if xs = [] then None else Some (series_sum xs / of_nat (length xs)))"

definition nunique :: "'a list \<Rightarrow> int" where
  "nunique xs = int (length (remdups xs))"

text \<open>
  \<open>groupby(key)\<close>: one group per key value that occurs, the groups in ascending order of
  the key (for two key columns, of the pair), each group holding its rows in frame order.
\<close>

definition group_keys :: "('r \<Rightarrow> 'k::linorder) \<Rightarrow> 'r list \<Rightarrow> 'k list" where
  "group_keys key rows = sort (remdups (map key rows))"

definition groupby :: "('r \<Rightarrow> 'k::linorder) \<Rightarrow> 'r list \<Rightarrow> ('k \<times> 'r list) list" where
  "groupby key rows = map (\<lambda>k. (k, filter (\<lambda>r. key r = k) rows)) (group_keys key rows)"

text \<open>
  \<open>sort_values(col, ascending=False)\<close>: pandas reverses the column, sorts it ascending
  and reverses the outcome. Rows of equal value are kept here in their frame order; the
  default sort of pandas is not stable and may order them otherwise, and no property
  below says how rows of equal value are ordered.
\<close>

definition sort_values_desc :: "('r \<Rightarrow> 'v::linorder) \<Rightarrow> 'r list \<Rightarrow> 'r list" where
  "sort_values_desc col rows = rev (sort_key col (rev rows))"

text \<open>\<open>head(n)\<close>: the first \<open>n\<close> rows; for a negative \<open>n\<close>, all rows but the last \<open>-n\<close>.\<close>

definition df_head :: "int \<Rightarrow> 'r list \<Rightarrow> 'r list" where
  "df_head n rows = (if 0 \<le> n then take (nat n) rows else take (length rows - nat (- n)) rows)"

subsection \<open>The result tables\<close>

record kpis =
  total_revenue :: real
  total_transactions :: int
  avg_order_value :: "real option"
  total_customers :: int
  total_products_sold :: int
  conversion_rate :: real

record category_stat =
  cat_category :: string
  cat_revenue :: real
  cat_transactions :: int
  cat_units_sold :: int

record region_stat =
  reg_region :: string
  reg_revenue :: real
  reg_transactions :: int

record product_stat =
  prod_product :: string
  prod_category :: string
  prod_revenue :: real
  prod_units_sold :: int
  prod_orders :: int

record payment_stat =
  pay_payment_method :: string
  pay_revenue :: real
  pay_transactions :: int
  pay_percentage :: real

subsection \<open>The analysis functions\<close>

definition completed_rows :: "transaction list \<Rightarrow> transaction list" where
  "completed_rows df = filter (\<lambda>t. status t = Complete) df"

text \<open>
  \<open>len(completed) / len(df)\<close> divides two Python ints: \<open>ZeroDivisionError\<close> when the
  frame has no row. The dict of the other KPIs is built before, without an exception.
  \<open>series_sum\<close> is \<open>Series.sum\<close> on a float column.
\<close>

definition calculate_kpis :: "(real list \<Rightarrow> real) \<Rightarrow> transaction list \<Rightarrow> py_error + kpis" where
  "calculate_kpis series_sum df =
     (let completed = completed_rows df;
          revenue = series_sum (map total_amount completed);
          n_completed = int (length completed);
          avg = series_mean series_sum (map total_amount completed);
          customers = nunique (map customer_id df);
          sold = int64_sum (map quantity completed)
      in if length df = 0 then Inl ZeroDivisionError
         else Inr \<lparr>total_revenue = revenue,
                   total_transactions = n_completed,
                   avg_order_value = avg,
                   total_customers = customers,
                   total_products_sold = sold,
                   conversion_rate = of_nat (length completed) / of_nat (length df) * 100\<rparr>)"

text \<open>
  In the grouped tables \<open>group_sum\<close> is the sum a \<open>groupby\<close> takes of the float column
  \<open>total_amount\<close> within one group, over the rows of the group in frame order.
\<close>

definition sales_by_category ::
  "(real list \<Rightarrow> real) \<Rightarrow> transaction list \<Rightarrow> category_stat list"
where
  "sales_by_category group_sum df =
     (let completed = completed_rows df;
          category_stats =
            map (\<lambda>(k, g). \<lparr>cat_category = k,
                            cat_revenue = group_sum (map total_amount g),
                            cat_transactions = int (length g),
                            cat_units_sold = int64_sum (map quantity g)\<rparr>)
              (groupby category completed)
      in sort_values_desc cat_revenue category_stats)"

definition sales_by_region ::
  "(real list \<Rightarrow> real) \<Rightarrow> transaction list \<Rightarrow> region_stat list"
where
  "sales_by_region group_sum df =
     (let completed = completed_rows df;
          region_stats =
            map (\<lambda>(k, g). \<lparr>reg_region = k,
                            reg_revenue = group_sum (map total_amount g),
                            reg_transactions = int (length g)\<rparr>)
              (groupby region completed)
      in sort_values_desc reg_revenue region_stats)"

definition top_products ::
  "(real list \<Rightarrow> real) \<Rightarrow> transaction list \<Rightarrow> int \<Rightarrow> product_stat list"
where
  "top_products group_sum df n =
     (let completed = completed_rows df;
          product_stats =
            map (\<lambda>(k, g). \<lparr>prod_product = fst k,
                            prod_category = snd k,
                            prod_revenue = group_sum (map total_amount g),
                            prod_units_sold = int64_sum (map quantity g),
                            prod_orders = int (length g)\<rparr>)
              (groupby (\<lambda>t. (product t, category t)) completed)
      in df_head n (sort_values_desc prod_revenue product_stats))"

text \<open>
  The percentage column divides each group's count by the sum of the counts column;
  the division is elementwise, so a frame with no group divides nothing.
\<close>

definition payment_method_analysis ::
  "(real list \<Rightarrow> real) \<Rightarrow> transaction list \<Rightarrow> payment_stat list"
where
  "payment_method_analysis group_sum df =
     (let completed = completed_rows df;
          payment_stats =
            map (\<lambda>(k, g). (k, group_sum (map total_amount g), int (length g)))
              (groupby payment_method completed);
          total = sum_list (map (\<lambda>(k, r, c). c) payment_stats);
          with_percentage =
            map (\<lambda>(k, r, c). \<lparr>pay_payment_method = k,
                               pay_revenue = r,
                               pay_transactions = c,
                               pay_percentage = of_int c / of_int total * 100\<rparr>)
              payment_stats
      in sort_values_desc pay_revenue with_percentage)"

section \<open>Notions used to state the properties\<close>

text \<open>
  The rows of one customer, and the amounts of those of them that are Completed; the
  Completed rows of one category, of one payment method.
\<close>

definition customer_rows :: "transaction list \<Rightarrow> string \<Rightarrow> transaction list" where
  "customer_rows df cid = filter (\<lambda>t. customer_id t = cid) df"

definition completed_amounts :: "transaction list \<Rightarrow> string \<Rightarrow> real list" where
  "completed_amounts df cid =
     map total_amount (filter (\<lambda>t. status t = Complete) (customer_rows df cid))"

definition category_rows :: "transaction list \<Rightarrow> string \<Rightarrow> transaction list" where
  "category_rows df c = filter (\<lambda>x. status x = Complete \<and> category x = c) df"


text \<open>An amount that is a whole number of cents, as \<open>round(x, 2)\<close> returns.\<close>

definition whole_cents :: "real \<Rightarrow> bool" where
  "whole_cents x \<longleftrightarrow> of_int \<lfloor>x * 100\<rfloor> = x * 100"

text \<open>The amount of a row agrees with its status: positive when Completed, zero otherwise.\<close>

definition amount_matches_status :: "transaction \<Rightarrow> bool" where
  "amount_matches_status row \<longleftrightarrow>
     (if status row = Complete then 0 < total_amount row else total_amount row = 0)"

section \<open>Example data\<close>

text \<open>
  Three Completed transactions of 100, 200 and 300 and a cancelled one, of two customers.
\<close>

definition example_df :: "transaction list" where
  "example_df =
    [\<lparr>transaction_id = ''TXN_000001'', date = 738000, customer_id = ''CUST_0001'',
      category = Livres, product = ''Roman'', quantity = 2, unit_price = 50,
      total_amount = 100, region = ''Bretagne'', payment_method = ''PayPal'',
      status = Complete\<rparr>,
     \<lparr>transaction_id = ''TXN_000002'', date = 738005, customer_id = ''CUST_0002'',
      category = Vetements, product = ''Jean'', quantity = 4, unit_price = 50,
      total_amount = 200, region = ''Occitanie'', payment_method = ''Virement'',
      status = Complete\<rparr>,
     \<lparr>transaction_id = ''TXN_000003'', date = 737990, customer_id = ''CUST_0001'',
      category = Livres, product = ''BD'', quantity = 3, unit_price = 100,
      total_amount = 300, region = ''Bretagne'', payment_method = ''PayPal'',
      status = Complete\<rparr>,
     \<lparr>transaction_id = ''TXN_000004'', date = 737980, customer_id = ''CUST_0001'',
      category = Livres, product = ''Roman'', quantity = 1, unit_price = 20,
      total_amount = 0, region = ''Bretagne'', payment_method = ''PayPal'',
      status = Annule\<rparr>]"

text \<open>A frame whose only row is cancelled.\<close>

definition cancelled_df :: "transaction list" where
  "cancelled_df =
    [\<lparr>transaction_id = ''TXN_000004'', date = 737980, customer_id = ''CUST_0001'',
      category = Livres, product = ''Roman'', quantity = 1, unit_price = 20,
      total_amount = 0, region = ''Bretagne'', payment_method = ''PayPal'',
      status = Annule\<rparr>]"

text \<open>
  Customers on the segment boundaries: the first spends 1500 + 500 = 2000.00, the second
  500.00, the third 2000.01.
\<close>

definition boundary_df :: "transaction list" where
  "boundary_df =
    [\<lparr>transaction_id = ''TXN_000001'', date = 738000, customer_id = ''CUST_0001'',
      category = Electronique, product = ''Laptop'', quantity = 2, unit_price = 750,
      total_amount = 1500, region = ''Bretagne'', payment_method = ''PayPal'',
      status = Complete\<rparr>,
     \<lparr>transaction_id = ''TXN_000002'', date = 738001, customer_id = ''CUST_0002'',
      category = Electronique, product = ''Tablette'', quantity = 1, unit_price = 500,
      total_amount = 500, region = ''Occitanie'', payment_method = ''Virement'',
      status = Complete\<rparr>,
     \<lparr>transaction_id = ''TXN_000003'', date = 738002, customer_id = ''CUST_0001'',
      category = Electronique, product = ''Tablette'', quantity = 1, unit_price = 500,
      total_amount = 500, region = ''Bretagne'', payment_method = ''PayPal'',
      status = Complete\<rparr>,
     \<lparr>transaction_id = ''TXN_000004'', date = 738003, customer_id = ''CUST_0003'',
      category = Electronique, product = ''Laptop'', quantity = 1, unit_price = 2000.01,
      total_amount = 2000.01, region = ''Bretagne'', payment_method = ''PayPal'',
      status = Complete\<rparr>]"

text \<open>
  Whole-cent amounts as doubles. The first customer's three amounts add up to 2000.00 as
  decimals and to \<open>2000 + 2 ^ -42\<close> in binary64; the second customer's add up to 500.00 and
  to \<open>500 + 2 ^ -44\<close>.
\<close>

definition float_boundary_df :: "transaction list" where
  "float_boundary_df =
    [\<lparr>transaction_id = ''TXN_000001'', date = 738000, customer_id = ''CUST_0001'',
      category = Electronique, product = ''Laptop'', quantity = 1,
      unit_price = to_double 601.9, total_amount = to_double 601.9,
      region = ''Bretagne'', payment_method = ''PayPal'', status = Complete\<rparr>,
     \<lparr>transaction_id = ''TXN_000002'', date = 738001, customer_id = ''CUST_0001'',
      category = Electronique, product = ''Laptop'', quantity = 1,
      unit_price = to_double 1063.69, total_amount = to_double 1063.69,
      region = ''Bretagne'', payment_method = ''PayPal'', status = Complete\<rparr>,
     \<lparr>transaction_id = ''TXN_000003'', date = 738002, customer_id = ''CUST_0001'',
      category = Electronique, product = ''Tablette'', quantity = 1,
      unit_price = to_double 334.41, total_amount = to_double 334.41,
      region = ''Bretagne'', payment_method = ''PayPal'', status = Complete\<rparr>,
     \<lparr>transaction_id = ''TXN_000004'', date = 738003, customer_id = ''CUST_0002'',
      category = Sports_Loisirs, product = ''Raquette'', quantity = 1,
      unit_price = to_double 329.66, total_amount = to_double 329.66,
      region = ''Occitanie'', payment_method = ''Virement'', status = Complete\<rparr>,
     \<lparr>transaction_id = ''TXN_000005'', date = 738004, customer_id = ''CUST_0002'',
      category = Sports_Loisirs, product = ''Ballon'', quantity = 1,
      unit_price = to_double 117.42, total_amount = to_double 117.42,
      region = ''Occitanie'', payment_method = ''Virement'', status = Complete\<rparr>,
     \<lparr>transaction_id = ''TXN_000006'', date = 738005, customer_id = ''CUST_0002'',
      category = Sports_Loisirs, product = ''Gourde'', quantity = 1,
      unit_price = to_double 52.92, total_amount = to_double 52.92,
      region = ''Occitanie'', payment_method = ''Virement'', status = Complete\<rparr>]"

text \<open>
  Three Completed whole-cent amounts in two categories: added in frame order they give
  the double 824.67, added category by category the next double above it.
\<close>

definition float_category_df :: "transaction list" where
  "float_category_df =
    [\<lparr>transaction_id = ''TXN_000001'', date = 738000, customer_id = ''CUST_0001'',
      category = Livres, product = ''Roman'', quantity = 1,
      unit_price = to_double 314.96, total_amount = to_double 314.96,
      region = ''Bretagne'', payment_method = ''PayPal'', status = Complete\<rparr>,
     \<lparr>transaction_id = ''TXN_000002'', date = 738001, customer_id = ''CUST_0002'',
      category = Vetements, product = ''Jean'', quantity = 1,
      unit_price = to_double 225.46, total_amount = to_double 225.46,
      region = ''Occitanie'', payment_method = ''Virement'', status = Complete\<rparr>,
     \<lparr>transaction_id = ''TXN_000003'', date = 738002, customer_id = ''CUST_0003'',
      category = Livres, product = ''BD'', quantity = 1,
      unit_price = to_double 284.25, total_amount = to_double 284.25,
      region = ''Bretagne'', payment_method = ''PayPal'', status = Complete\<rparr>]"

text \<open>
  Draws for the generation loop: the first pass draws a Completed sale of two books, every
  later pass a cancelled sale whose exponential variate, above 730, sends the date to
  the uniform fallback.
\<close>

definition example_rng :: "nat \<Rightarrow> draws" where
  "example_rng i =
     (if i = 0 then
        \<lparr>np_exponential = 123.7, rand_day = 0, rand_category = 4, rand_product = 0,
         rand_base = 1 / 2, np_quantity = 1, rand_jitter = 1 / 2, rand_customer = 41,
         rand_region = 6, rand_payment = 1, np_status = 0\<rparr>
      else
        \<lparr>np_exponential = 900.2, rand_day = 10, rand_category = 0, rand_product = 1,
         rand_base = 1 / 4, np_quantity = 0, rand_jitter = 3 / 4, rand_customer = 6,
         rand_region = 0, rand_payment = 0, np_status = 1\<rparr>)"

definition example_now :: datetime where
  "example_now = \<lparr>dt_day = 739000, dt_time = 0\<rparr>"

text \<open>The row the first pass generates, up to its date.\<close>

definition example_row :: "date \<Rightarrow> transaction" where
  "example_row day =
     \<lparr>transaction_id = ''TXN_000001'', date = day, customer_id = ''CUST_0042'',
      category = Livres, product = ''Roman'', quantity = 2, unit_price = 55 / 2,
      total_amount = 55, region = ''Bretagne'', payment_method = ''PayPal'',
      status = Complete\<rparr>"

section \<open>Sums over groups and sorted frames\<close>

lemma sum_list_pick:
  fixes c :: "'b::comm_monoid_add"
  shows "distinct ks \<Longrightarrow>
    sum_list (map (\<lambda>k. if x = k then c else 0) ks) = (if x \<in> set ks then c else 0)"
  by (induction ks) auto

text \<open>Summing group by group, over distinct keys, sums the rows that have one of the keys.\<close>

lemma sum_list_groups:
  fixes f :: "'r \<Rightarrow> 'b::comm_monoid_add"
  assumes "distinct ks"
  shows "sum_list (map (\<lambda>k. sum_list (map f (filter (\<lambda>r. key r = k) rows))) ks)
       = sum_list (map f (filter (\<lambda>r. key r \<in> set ks) rows))"
proof (induction rows)
  case Nil
  then show ?case by simp
next
  case (Cons r rs)
  have "sum_list (map (\<lambda>k. sum_list (map f (filter (\<lambda>r. key r = k) (r # rs)))) ks)
      = sum_list (map (\<lambda>k. (if key r = k then f r else 0)
            + sum_list (map f (filter (\<lambda>r. key r = k) rs))) ks)"
    by (rule arg_cong [where f = sum_list]) (rule map_cong, auto)
  also have "\<dots> = sum_list (map (\<lambda>k. if key r = k then f r else 0) ks)
      + sum_list (map (\<lambda>k. sum_list (map f (filter (\<lambda>r. key r = k) rs))) ks)"
    by (simp add: sum_list_addf)
  also have "\<dots> = (if key r \<in> set ks then f r else 0)
      + sum_list (map f (filter (\<lambda>r. key r \<in> set ks) rs))"
    using assms Cons.IH by (simp only: sum_list_pick)
  finally show ?case by simp
qed

lemma group_keys_distinct: "distinct (group_keys key rows)"
  by (simp add: group_keys_def)

lemma group_keys_set: "set (group_keys key rows) = key ` set rows"
  by (simp add: group_keys_def)

lemma map_fst_groupby: "map fst (groupby key rows) = group_keys key rows"
  by (simp add: groupby_def comp_def)

lemma groupby_member:
  "(k, g) \<in> set (groupby key rows) \<Longrightarrow>
     k \<in> key ` set rows \<and> g = filter (\<lambda>r. key r = k) rows"
  by (auto simp: groupby_def group_keys_set)

lemma groupby_Nil: "groupby key [] = []"
  by (simp add: groupby_def group_keys_def)

lemma sum_list_groupby:
  fixes f :: "'r \<Rightarrow> 'b::comm_monoid_add"
  shows "sum_list (map (\<lambda>(k, g). sum_list (map f g)) (groupby key rows)) = sum_list (map f rows)"
proof -
  have "sum_list (map (\<lambda>(k, g). sum_list (map f g)) (groupby key rows))
      = sum_list (map (\<lambda>k. sum_list (map f (filter (\<lambda>r. key r = k) rows)))
          (group_keys key rows))"
    by (simp add: groupby_def comp_def)
  also have "\<dots> = sum_list (map f (filter (\<lambda>r. key r \<in> set (group_keys key rows)) rows))"
    by (rule sum_list_groups) (rule group_keys_distinct)
  also have "\<dots> = sum_list (map f rows)"
    by (simp add: group_keys_set)
  finally show ?thesis .
qed

lemma length_as_sum: "int (length xs) = sum_list (map (\<lambda>_. 1) xs)"
  by (induction xs) auto


lemma count_groupby:
  "sum_list (map (\<lambda>(k, g). int (length g)) (groupby key rows)) = int (length rows)"
  using sum_list_groupby [of "\<lambda>_. 1::int" key rows]
  by (simp add: length_as_sum [symmetric])


lemma sum_list_insort_key:
  fixes g :: "'r \<Rightarrow> 'b::comm_monoid_add"
  shows "sum_list (map g (insort_key h x xs)) = g x + sum_list (map g xs)"
  by (induction xs) (auto simp: add.left_commute)

lemma sum_list_sort_key:
  fixes g :: "'r \<Rightarrow> 'b::comm_monoid_add"
  shows "sum_list (map g (sort_key h xs)) = sum_list (map g xs)"
  by (induction xs) (auto simp: sum_list_insort_key)

lemma sum_list_sort_values_desc:
  fixes g :: "'r \<Rightarrow> 'b::comm_monoid_add"
  shows "sum_list (map g (sort_values_desc h xs)) = sum_list (map g xs)"
  by (simp add: sort_values_desc_def rev_map [symmetric] sum_list_sort_key)


lemma sort_values_desc_Nil: "sort_values_desc col [] = []"
  by (simp add: sort_values_desc_def)

lemma length_sort_values_desc: "length (sort_values_desc col rows) = length rows"
  by (simp add: sort_values_desc_def)

lemma set_sort_values_desc: "set (sort_values_desc col rows) = set rows"
  by (simp add: sort_values_desc_def)

lemma sorted_sort_values_desc:
  "sorted_wrt (\<lambda>a b. col b \<le> col a) (sort_values_desc col rows)"
proof -
  have "sorted (map col (sort_key col (rev rows)))"
    by (rule sorted_sort_key)
  then have "sorted_wrt (\<lambda>a b. col a \<le> col b) (sort_key col (rev rows))"
    by (simp add: sorted_wrt_map)
  then show ?thesis
    by (simp add: sort_values_desc_def sorted_wrt_rev)
qed

lemma distinct_map_sort_values_desc:
  "distinct (map f (sort_values_desc col rows)) = distinct (map f rows)"
  by (simp add: distinct_map sort_values_desc_def)

lemma df_head_pos: "0 < n \<Longrightarrow> df_head n rows = take (nat n) rows"
  by (simp add: df_head_def)

lemma completed_rows_Nil: "(\<forall>r\<in>set t. status r \<noteq> Complete) \<Longrightarrow> completed_rows t = []"
  by (simp add: completed_rows_def)


section \<open>Evaluating the model\<close>

lemmas double_eval = double_sum_def to_double_def binary_exponent_def pow2_def py_round_def
  round2_def Let_def compute_floorlog

lemmas string_defs = Complete_def Annule_def Rembourse_def Electronique_def Vetements_def
  Maison_Jardin_def Sports_Loisirs_def Livres_def Premium_def Regulier_def Occasionnel_def

lemmas frame_eval = completed_rows_def groupby_def group_keys_def sort_values_desc_def
  df_head_def series_mean_def nunique_def int64_sum_def int64_wrap_def

text \<open>
  The doubles that the decimals 8.345 and 1.015 denote are rounded to 8.35 and 1.01; the
  doubles 0.125 and 0.375 are ties, rounded to the even cent.
\<close>

lemma round2_of_doubles:
  "round2 (to_double 8.345) = 8.35" "round2 (to_double 1.015) = 1.01"
  "round2 (1 / 8) = 0.12" "round2 (3 / 8) = 0.38"
  by (simp_all add: double_eval)

text \<open>Two quantities of \<open>2 ^ 62\<close> add up to \<open>- 2 ^ 63\<close> in an \<open>int64\<close> column.\<close>

lemma int64_sum_wraps: "int64_sum [2 ^ 62, 2 ^ 62] = - (2 ^ 63)"
  by (simp add: int64_sum_def int64_wrap_def)

text \<open>0.1 + 0.2 in binary64 is the double above 0.3.\<close>

lemma double_sum_tenths:
  "double_sum [to_double 0.1, to_double 0.2] = to_double 0.3 + 1 / 2 ^ 54"
  by (simp add: double_eval)

subsection \<open>The analysis on the example data\<close>

text \<open>The sums are taken in binary64, where the amounts of this frame add up exactly.\<close>

lemma kpis_example:
  "calculate_kpis double_sum example_df =
     Inr \<lparr>total_revenue = 600, total_transactions = 3, avg_order_value = Some 200,
          total_customers = 2, total_products_sold = 9, conversion_rate = 75\<rparr>"
  by (simp add: calculate_kpis_def frame_eval example_df_def double_eval string_defs)

lemma sales_by_category_example:
  "sales_by_category double_sum example_df =
     [\<lparr>cat_category = Livres, cat_revenue = 400, cat_transactions = 2, cat_units_sold = 5\<rparr>,
      \<lparr>cat_category = Vetements, cat_revenue = 200, cat_transactions = 1,
        cat_units_sold = 4\<rparr>]"
  by (simp add: sales_by_category_def frame_eval example_df_def double_eval string_defs)

lemma top_products_example:
  "top_products double_sum example_df 1 =
     [\<lparr>prod_product = ''BD'', prod_category = Livres, prod_revenue = 300,
       prod_units_sold = 3, prod_orders = 1\<rparr>]"
  by (simp add: top_products_def frame_eval example_df_def double_eval string_defs)

text \<open>A cancelled row is in no group.\<close>

lemma top_products_cancelled_example: "top_products double_sum cancelled_df 1 = []"
  by (simp add: top_products_def frame_eval cancelled_df_def string_defs)


text \<open>
  On the frame of three whole-cent amounts the total revenue is the double 824.67; the
  revenue column holds the doubles 599.21 and 225.46, whose sum is the next double.
\<close>

lemma kpis_float_example:
  "map_sum id (\<lambda>k. (total_revenue k, total_transactions k))
       (calculate_kpis double_sum float_category_df)
     = Inr (to_double 824.67, 3)"
  by (simp add: calculate_kpis_def frame_eval float_category_df_def double_eval string_defs)

lemma sales_by_category_float_example:
  "sales_by_category double_sum float_category_df =
     [\<lparr>cat_category = Livres, cat_revenue = to_double 599.21, cat_transactions = 2,
       cat_units_sold = 2\<rparr>,
      \<lparr>cat_category = Vetements, cat_revenue = to_double 225.46, cat_transactions = 1,
       cat_units_sold = 1\<rparr>]"
  by (simp add: sales_by_category_def frame_eval float_category_df_def double_eval string_defs)

lemma revenue_column_float_example:
  "double_sum [to_double 599.21, to_double 225.46] = to_double 824.67 + 1 / 2 ^ 43"
  by (simp add: double_eval)

subsection \<open>The customer table on the example data\<close>


lemma customers_boundary:
  "generate_customer_data double_sum boundary_df =
     [\<lparr>cust_customer_id = ''CUST_0001'', first_purchase_date = Some 738000,
       total_purchases = 2, total_spent = 2000, segment = Regulier\<rparr>,
      \<lparr>cust_customer_id = ''CUST_0002'', first_purchase_date = Some 738001,
       total_purchases = 1, total_spent = 500, segment = Occasionnel\<rparr>,
      \<lparr>cust_customer_id = ''CUST_0003'', first_purchase_date = Some 738003,
       total_purchases = 1, total_spent = 2000.01, segment = Premium\<rparr>]"
  by (simp add: generate_customer_data_def boundary_df_def double_eval string_defs)

text \<open>
  The whole-cent amounts 601.90, 1063.69 and 334.41 add up to a double above 2000, and
  329.66, 117.42 and 52.92 to a double above 500: the customers are Premium and Regular,
  and their rounded totals are 2000.00 and 500.00.
\<close>

lemma float_boundary_sums:
  "double_sum (completed_amounts float_boundary_df ''CUST_0001'') = 2000 + 1 / 2 ^ 42"
  "double_sum (completed_amounts float_boundary_df ''CUST_0002'') = 500 + 1 / 2 ^ 44"
  by (simp_all add: completed_amounts_def customer_rows_def float_boundary_df_def
      double_eval string_defs)

lemma customers_float_boundary:
  "generate_customer_data double_sum float_boundary_df =
     [\<lparr>cust_customer_id = ''CUST_0001'', first_purchase_date = Some 738000,
       total_purchases = 3, total_spent = 2000, segment = Premium\<rparr>,
      \<lparr>cust_customer_id = ''CUST_0002'', first_purchase_date = Some 738003,
       total_purchases = 3, total_spent = 500, segment = Regulier\<rparr>]"
  by (simp add: generate_customer_data_def float_boundary_df_def double_eval string_defs)

section \<open>Properties of analysis.py\<close>

lemma completed_rows_filter: "completed_rows t = filter (\<lambda>x. status x = Complete) t"
  by (simp add: completed_rows_def)

lemma category_group_rows:
  assumes "(k, g) \<in> set (groupby category (completed_rows t))"
  shows "g = category_rows t k"
proof -
  from groupby_member [OF assms] have "g = filter (\<lambda>x. category x = k) (completed_rows t)"
    by simp
  then show ?thesis
    by (simp add: completed_rows_def category_rows_def conj_commute)
qed

text \<open>The revenue column holds the group sums; its exact sum adds them up.\<close>

lemma category_revenue_column:
  "sum_list (map cat_revenue (sales_by_category group_sum t))
     = sum_list (map (\<lambda>(k, g). group_sum (map total_amount g))
         (groupby category (completed_rows t)))"
  by (simp add: sales_by_category_def sum_list_sort_values_desc comp_def case_prod_unfold)

lemma category_error_column:
  "sum_list (map (\<lambda>r. sum_error group_sum (map total_amount (category_rows t (cat_category r))))
       (sales_by_category group_sum t))
     = sum_list (map (\<lambda>(k, g). sum_error group_sum (map total_amount g))
         (groupby category (completed_rows t)))"
proof -
  have "sum_list (map (\<lambda>r. sum_error group_sum
            (map total_amount (category_rows t (cat_category r))))
       (sales_by_category group_sum t))
     = sum_list (map (\<lambda>(k, g). sum_error group_sum (map total_amount (category_rows t k)))
         (groupby category (completed_rows t)))"
    by (simp add: sales_by_category_def sum_list_sort_values_desc comp_def case_prod_unfold)
  also have "\<dots> = sum_list (map (\<lambda>(k, g). sum_error group_sum (map total_amount g))
         (groupby category (completed_rows t)))"
    by (rule arg_cong [where f = sum_list], rule map_cong)
      (auto dest: category_group_rows)
  finally show ?thesis .
qed

lemma category_transactions_sum:
  "sum_list (map cat_transactions (sales_by_category group_sum t))
     = int (length (completed_rows t))"
  by (simp add: sales_by_category_def sum_list_sort_values_desc comp_def case_prod_unfold
        count_groupby [unfolded case_prod_unfold])

lemma sum_list_diff_abs:
  fixes f g :: "'a \<Rightarrow> real"
  shows "\<bar>sum_list (map f xs) - sum_list (map g xs)\<bar> \<le> sum_list (map (\<lambda>x. \<bar>f x - g x\<bar>) xs)"
  by (induction xs) auto

text \<open>
  The group sums are sums over a partition of the Completed rows: their exact sum is as
  far from the exact sum of all the Completed amounts as the group sums are from exact.
\<close>

lemma category_revenue_exact_distance:
  "\<bar>sum_list (map cat_revenue (sales_by_category group_sum t))
      - sum_list (map total_amount (completed_rows t))\<bar>
   \<le> sum_list (map (\<lambda>r. sum_error group_sum
         (map total_amount (category_rows t (cat_category r))))
       (sales_by_category group_sum t))"
proof -
  let ?G = "groupby category (completed_rows t)"
  have "sum_list (map total_amount (completed_rows t))
      = sum_list (map (\<lambda>(k, g). sum_list (map total_amount g)) ?G)"
    by (rule sum_list_groupby [symmetric])
  then have "\<bar>sum_list (map cat_revenue (sales_by_category group_sum t))
      - sum_list (map total_amount (completed_rows t))\<bar>
    = \<bar>sum_list (map (\<lambda>(k, g). group_sum (map total_amount g)) ?G)
      - sum_list (map (\<lambda>(k, g). sum_list (map total_amount g)) ?G)\<bar>"
    by (simp only: category_revenue_column)
  also have "\<dots> \<le> sum_list (map (\<lambda>x. \<bar>(case x of (k, g) \<Rightarrow> group_sum (map total_amount g))
      - (case x of (k, g) \<Rightarrow> sum_list (map total_amount g))\<bar>) ?G)"
    by (rule sum_list_diff_abs)
  also have "\<dots> = sum_list (map (\<lambda>(k, g). sum_error group_sum (map total_amount g)) ?G)"
    by (simp add: sum_error_def case_prod_unfold)
  finally show ?thesis by (simp only: category_error_column)
qed

lemma calculate_kpis_nonempty:
  "t \<noteq> [] \<Longrightarrow> \<exists>k. calculate_kpis series_sum t = Inr k \<and>
     total_revenue k = series_sum (map total_amount (filter (\<lambda>x. status x = Complete) t)) \<and>
     total_transactions k = int (length (completed_rows t))"
  by (simp add: calculate_kpis_def Let_def completed_rows_def)

text \<open>
  Claim C2, on the frames for which \<open>calculate_kpis\<close> returns and with the sums as floats
  have them. For every transaction frame with at least one row, \<open>calculate_kpis\<close> returns
  KPIs, and the transactions column of \<open>sales_by_category\<close> sums to their
  \<open>total_transactions\<close>. The revenue column sums to their \<open>total_revenue\<close> up to the
  rounding of the sums involved: the two are sums of the same Completed amounts, grouped
  differently, and lie no further apart than the errors of the sum of the column, of the
  sum within each category, and of the sum of all the Completed amounts add up to.
\<close>

theorem category_sums_reconcile_with_kpis:
  assumes "t \<noteq> []"
  shows "\<exists>k. calculate_kpis series_sum t = Inr k \<and>
     sum_list (map cat_transactions (sales_by_category group_sum t)) = total_transactions k \<and>
     \<bar>series_sum (map cat_revenue (sales_by_category group_sum t)) - total_revenue k\<bar>
       \<le> sum_error series_sum (map cat_revenue (sales_by_category group_sum t))
         + sum_list (map (\<lambda>r. sum_error group_sum
               (map total_amount (category_rows t (cat_category r))))
             (sales_by_category group_sum t))
         + sum_error series_sum (map total_amount (filter (\<lambda>x. status x = Complete) t))"
proof -
  from calculate_kpis_nonempty [OF assms] obtain k
    where k: "calculate_kpis series_sum t = Inr k"
      and rev: "total_revenue k
        = series_sum (map total_amount (filter (\<lambda>x. status x = Complete) t))"
      and cnt: "total_transactions k = int (length (completed_rows t))"
    by blast
  define col where "col = map cat_revenue (sales_by_category group_sum t)"
  define amounts where "amounts = map total_amount (filter (\<lambda>x. status x = Complete) t)"
  have mid: "\<bar>sum_list col - sum_list amounts\<bar>
      \<le> sum_list (map (\<lambda>r. sum_error group_sum
               (map total_amount (category_rows t (cat_category r))))
             (sales_by_category group_sum t))"
    using category_revenue_exact_distance [of group_sum t]
    by (simp add: col_def amounts_def completed_rows_def)
  have "\<bar>series_sum col - series_sum amounts\<bar>
      \<le> \<bar>series_sum col - sum_list col\<bar> + \<bar>sum_list col - sum_list amounts\<bar>
        + \<bar>series_sum amounts - sum_list amounts\<bar>"
    by linarith
  with mid have "\<bar>series_sum col - series_sum amounts\<bar>
      \<le> sum_error series_sum col
        + sum_list (map (\<lambda>r. sum_error group_sum
               (map total_amount (category_rows t (cat_category r))))
             (sales_by_category group_sum t))
        + sum_error series_sum amounts"
    by (simp add: sum_error_def)
  with k rev cnt show ?thesis
    by (auto simp: col_def amounts_def category_transactions_sum)
qed

theorem category_sums_reconcile_with_kpis_witness:
  "float_category_df \<noteq> [] \<and>
   sum_list (map cat_transactions (sales_by_category double_sum float_category_df)) = 3 \<and>
   (\<exists>k. calculate_kpis double_sum float_category_df = Inr k \<and>
     sum_list (map cat_transactions (sales_by_category double_sum float_category_df))
       = total_transactions k \<and>
     \<bar>double_sum (map cat_revenue (sales_by_category double_sum float_category_df))
        - total_revenue k\<bar>
       \<le> sum_error double_sum (map cat_revenue (sales_by_category double_sum float_category_df))
         + sum_list (map (\<lambda>r. sum_error double_sum
               (map total_amount (category_rows float_category_df (cat_category r))))
             (sales_by_category double_sum float_category_df))
         + sum_error double_sum
             (map total_amount (filter (\<lambda>x. status x = Complete) float_category_df)))"
proof -
  have ne: "float_category_df \<noteq> []" by (simp add: float_category_df_def)
  have "sum_list (map cat_transactions (sales_by_category double_sum float_category_df)) = 3"
    by (simp only: sales_by_category_float_example list.map category_stat.select_convs)
      simp
  with category_sums_reconcile_with_kpis [OF ne, of double_sum double_sum] ne
  show ?thesis by blast
qed

text \<open>
  For the frame with no row \<open>calculate_kpis\<close> raises, so there are no KPIs to reconcile
  with. For the three whole-cent amounts 314.96, 225.46 and 284.25, summed in binary64,
  the counts reconcile and the revenue column sums to the double next above
  \<open>total_revenue\<close>.
\<close>

theorem category_revenue_does_not_reconcile:
  "calculate_kpis double_sum [] = Inl ZeroDivisionError \<and>
   map_sum id total_revenue (calculate_kpis double_sum float_category_df)
     = Inr (to_double 824.67) \<and>
   double_sum (map cat_revenue (sales_by_category double_sum float_category_df))
     = to_double 824.67 + 1 / 2 ^ 43"
proof (intro conjI)
  show "calculate_kpis double_sum [] = Inl ZeroDivisionError"
    by (simp add: calculate_kpis_def)
  show "map_sum id total_revenue (calculate_kpis double_sum float_category_df)
     = Inr (to_double 824.67)"
    using kpis_float_example
    by (cases "calculate_kpis double_sum float_category_df") simp_all
  show "double_sum (map cat_revenue (sales_by_category double_sum float_category_df))
     = to_double 824.67 + 1 / 2 ^ 43"
    by (simp only: sales_by_category_float_example list.map category_stat.select_convs
        revenue_column_float_example)
qed

text \<open>With exact sums the revenue column and the total revenue are equal.\<close>

lemma category_revenue_exact:
  assumes "t \<noteq> []"
  shows "\<exists>k. calculate_kpis sum_list t = Inr k \<and>
     sum_list (map cat_revenue (sales_by_category sum_list t)) = total_revenue k"
proof -
  from calculate_kpis_nonempty [OF assms, of sum_list] obtain k
    where "calculate_kpis sum_list t = Inr k"
      and "total_revenue k = sum_list (map total_amount (filter (\<lambda>x. status x = Complete) t))"
    by blast
  moreover have "sum_list (map cat_revenue (sales_by_category sum_list t))
      = sum_list (map total_amount (completed_rows t))"
    using category_revenue_exact_distance [of sum_list t]
    by (simp add: sum_error_def)
  ultimately show ?thesis by (auto simp: completed_rows_def)
qed

text \<open>
  Claim C5. For every transaction frame and every positive \<open>n\<close>, \<open>top_products\<close> returns at
  most \<open>n\<close> rows (\<open>n\<close> of them, or one for each (product, category) pair of the rows whose
  status is Completed when these pairs are fewer), their revenue never increases from one
  row to the next, no two rows have the same (product, category) pair, and each row
  aggregates the rows of the frame that have its pair and whose status is Completed, of
  which there is at least one: orders is their number and revenue the group sum of their
  amounts.
\<close>

theorem top_products_at_most_n_sorted:
  assumes "0 < n"
  shows "int (length (top_products group_sum t n)) \<le> n \<and>
    length (top_products group_sum t n)
      = min (nat n)
          (card ((\<lambda>x. (product x, category x)) ` {x \<in> set t. status x = Complete})) \<and>
    sorted_wrt (\<lambda>a b. prod_revenue b \<le> prod_revenue a) (top_products group_sum t n) \<and>
    distinct (map (\<lambda>r. (prod_product r, prod_category r)) (top_products group_sum t n)) \<and>
    (\<forall>r\<in>set (top_products group_sum t n).
       0 < prod_orders r \<and>
       prod_revenue r
         = group_sum (map total_amount
             (filter (\<lambda>x. status x = Complete \<and> product x = prod_product r
                \<and> category x = prod_category r) t)) \<and>
       prod_orders r
         = int (length (filter (\<lambda>x. status x = Complete \<and> product x = prod_product r
                \<and> category x = prod_category r) t)))"
proof -
  define key where "key = (\<lambda>x::transaction. (product x, category x))"
  define mk where "mk = (\<lambda>(k::string \<times> string, g::transaction list).
     \<lparr>prod_product = fst k, prod_category = snd k,
      prod_revenue = group_sum (map total_amount g),
      prod_units_sold = int64_sum (map quantity g),
      prod_orders = int (length g)\<rparr>)"
  define stats where "stats = map mk (groupby key (completed_rows t))"
  have top: "top_products group_sum t n = take (nat n) (sort_values_desc prod_revenue stats)"
    using assms by (simp add: top_products_def df_head_pos stats_def mk_def key_def)
  have len: "int (length (top_products group_sum t n)) \<le> n"
    using assms by (simp add: top)
  have "length stats = length (map fst (groupby key (completed_rows t)))"
    by (simp add: stats_def)
  also have "\<dots> = card (set (group_keys key (completed_rows t)))"
    unfolding map_fst_groupby by (rule distinct_card [symmetric]) (rule group_keys_distinct)
  finally have "length stats = card (key ` set (completed_rows t))"
    by (simp only: group_keys_set)
  moreover have "set (completed_rows t) = {x \<in> set t. status x = Complete}"
    by (auto simp: completed_rows_def)
  ultimately have cnt: "length (top_products group_sum t n)
      = min (nat n)
          (card ((\<lambda>x. (product x, category x)) ` {x \<in> set t. status x = Complete}))"
    by (simp add: top length_sort_values_desc key_def min.commute)
  have srt: "sorted_wrt (\<lambda>a b. prod_revenue b \<le> prod_revenue a)
      (top_products group_sum t n)"
    unfolding top by (rule sorted_wrt_take) (rule sorted_sort_values_desc)
  have keys: "map (\<lambda>r. (prod_product r, prod_category r)) stats
      = group_keys key (completed_rows t)"
    by (simp add: stats_def mk_def comp_def case_prod_unfold map_fst_groupby [symmetric])
  have "distinct (map (\<lambda>r. (prod_product r, prod_category r))
      (sort_values_desc prod_revenue stats))"
    by (simp add: distinct_map_sort_values_desc keys group_keys_distinct)
  then have dst: "distinct (map (\<lambda>r. (prod_product r, prod_category r))
      (top_products group_sum t n))"
    unfolding top take_map [symmetric] by (rule distinct_take)
  have rows: "0 < prod_orders r \<and>
       prod_revenue r
         = group_sum (map total_amount
             (filter (\<lambda>x. status x = Complete \<and> product x = prod_product r
                \<and> category x = prod_category r) t)) \<and>
       prod_orders r
         = int (length (filter (\<lambda>x. status x = Complete \<and> product x = prod_product r
                \<and> category x = prod_category r) t))"
    if "r \<in> set (top_products group_sum t n)" for r
  proof -
    from that have "r \<in> set stats"
      unfolding top by (auto dest: in_set_takeD simp: set_sort_values_desc)
    then obtain k g where kg: "(k, g) \<in> set (groupby key (completed_rows t))"
      and r: "r = mk (k, g)"
      by (auto simp: stats_def)
    from groupby_member [OF kg] have k: "k \<in> key ` set (completed_rows t)"
      and g: "g = filter (\<lambda>x. key x = k) (completed_rows t)" by simp_all
    have g': "g = filter (\<lambda>x. status x = Complete \<and> product x = fst k \<and> category x = snd k) t"
      unfolding g completed_rows_def key_def filter_filter by (rule filter_cong) auto
    from k have "g \<noteq> []"
      unfolding g by (auto simp: filter_empty_conv)
    then show ?thesis
      using g' by (simp add: r mk_def)
  qed
  from len cnt srt dst rows show ?thesis by blast
qed

theorem top_products_at_most_n_sorted_witness:
  "0 < (1::int) \<and> int (length (top_products double_sum example_df 1)) \<le> 1 \<and>
   sorted_wrt (\<lambda>a b. prod_revenue b \<le> prod_revenue a) (top_products double_sum example_df 1) \<and>
   prod_orders (hd (top_products double_sum example_df 1))
     = int (length (filter (\<lambda>x. status x = Complete \<and> product x = ''BD''
          \<and> category x = Livres) example_df)) \<and>
   top_products double_sum cancelled_df 1 = []"
proof -
  have pos: "0 < (1::int)" by simp
  from top_products_at_most_n_sorted [OF pos, of double_sum example_df]
  show ?thesis
    by (simp add: top_products_example top_products_cancelled_example)
qed





text \<open>
  Claim C7. For the transaction frame with no row, \<open>calculate_kpis\<close> raises
  \<open>ZeroDivisionError\<close>: the conversion rate divides the number of Completed rows by the
  number of rows, two Python ints, and no KPI is returned.
\<close>

theorem calculate_kpis_empty_frame_divides_by_zero:
  "calculate_kpis series_sum [] = Inl ZeroDivisionError"
  by (simp add: calculate_kpis_def)

text \<open>
  Claim C10. For every transaction frame with no Completed row, the frame with no row
  among them, \<open>sales_by_category\<close>, \<open>sales_by_region\<close> and \<open>payment_method_analysis\<close> each
  return the table with no row; none of them has an operation that raises on such a
  frame, and the division of \<open>payment_method_analysis\<close> has no row to divide.
\<close>

theorem no_completed_rows_give_empty_tables:
  assumes "\<forall>r\<in>set t. status r \<noteq> Complete"
  shows "sales_by_category group_sum t = [] \<and> sales_by_region group_sum t = [] \<and>
    payment_method_analysis group_sum t = []"
  using assms
  by (simp add: completed_rows_Nil sales_by_category_def sales_by_region_def
      payment_method_analysis_def groupby_Nil sort_values_desc_Nil)

theorem no_completed_rows_give_empty_tables_witness:
  "status (hd cancelled_df) \<noteq> Complete \<and> length cancelled_df = 1 \<and>
   sales_by_category double_sum cancelled_df = [] \<and>
   sales_by_region double_sum cancelled_df = [] \<and>
   payment_method_analysis double_sum cancelled_df = [] \<and>
   sales_by_category double_sum [] = [] \<and> sales_by_region double_sum [] = [] \<and>
   payment_method_analysis double_sum [] = []"
proof -
  have st: "status (hd cancelled_df) \<noteq> Complete"
    by (simp add: cancelled_df_def Annule_def Complete_def)
  then have "\<forall>r\<in>set cancelled_df. status r \<noteq> Complete"
    by (simp add: cancelled_df_def)
  from no_completed_rows_give_empty_tables [OF this, of double_sum]
    no_completed_rows_give_empty_tables [of "[]" double_sum] st
  show ?thesis by (simp add: cancelled_df_def)
qed

section \<open>Properties of generate_customer_data\<close>

lemma set_unique: "set (unique xs) = set xs"
  by (induction xs rule: unique.induct) auto




text \<open>What a row of the customer table holds, read off the loop body.\<close>

lemma customer_row:
  assumes "c \<in> set (generate_customer_data series_sum t)"
  shows "cust_customer_id c \<in> customer_id ` set t"
    and "first_purchase_date c = series_min (map date (customer_rows t (cust_customer_id c)))"
    and "total_purchases c = int (length (customer_rows t (cust_customer_id c)))"
    and "total_spent c = round2 (series_sum (completed_amounts t (cust_customer_id c)))"
    and "segment c = (let spent = series_sum (completed_amounts t (cust_customer_id c))
         in if 2000 < spent then Premium else if 500 < spent then Regulier else Occasionnel)"
  using assms
  by (auto simp: generate_customer_data_def Let_def set_unique customer_rows_def
      completed_amounts_def conj_commute)

subsection \<open>Rounding to cents\<close>

lemma py_round_of_int: "py_round (of_int k) = k"
  by (simp add: py_round_def)

lemma py_round_near: "\<bar>of_int (py_round y) - y\<bar> \<le> 1 / 2"
proof -
  have "of_int \<lfloor>y\<rfloor> \<le> y" and "y < of_int \<lfloor>y\<rfloor> + 1"
    by linarith+
  then show ?thesis
    by (auto simp: py_round_def Let_def)
qed

lemma whole_cents_iff: "whole_cents x \<longleftrightarrow> (\<exists>k::int. x * 100 = of_int k)"
  unfolding whole_cents_def by (metis of_int_floor_cancel)

lemma whole_cents_0: "whole_cents 0"
  by (simp add: whole_cents_def)

text \<open>A rounded amount is a whole number of cents, at most half a cent from the amount.\<close>

lemma whole_cents_round2: "whole_cents (round2 x)"
  unfolding whole_cents_iff by (simp add: round2_def)

lemma round2_near: "\<bar>round2 x - x\<bar> \<le> 1 / 200"
proof -
  have "\<bar>round2 x - x\<bar> = \<bar>of_int (py_round (x * 100)) - x * 100\<bar> / 100"
    by (simp add: round2_def field_simps)
  also have "\<dots> \<le> (1 / 2) / 100"
    by (rule divide_right_mono) (rule py_round_near, simp)
  finally show ?thesis by simp
qed

lemma round2_whole_cents:
  assumes "whole_cents x"
  shows "round2 x = x"
proof -
  from assms have "of_int \<lfloor>x * 100\<rfloor> = x * 100" unfolding whole_cents_def .
  then have eq: "x * 100 = of_int \<lfloor>x * 100\<rfloor>" by (rule sym)
  have "py_round (x * 100) = \<lfloor>x * 100\<rfloor>"
    by (subst eq) (rule py_round_of_int)
  then show ?thesis using eq by (simp add: round2_def)
qed

text \<open>
  A whole number of cents on one side of a cent bound stays there when it moves by half
  a cent or less.
\<close>

lemma above_cents_bound:
  assumes "whole_cents a" and "\<bar>a - s\<bar> \<le> 1 / 200" and "of_int k / 100 < a"
  shows "of_int k / 100 < s"
proof -
  from assms(1) obtain m :: int where m: "a * 100 = of_int m"
    by (auto simp: whole_cents_iff)
  with assms(3) have "(of_int k :: real) < of_int m" by simp
  then have "k + 1 \<le> m" by simp
  then have "(of_int (k + 1) :: real) \<le> of_int m" by (simp only: of_int_le_iff)
  with m have "of_int k / 100 + 1 / 100 \<le> a" by simp
  with assms(2) show ?thesis by arith
qed

lemma below_cents_bound:
  assumes "whole_cents a" and "\<bar>a - s\<bar> \<le> 1 / 200" and "a < of_int k / 100"
  shows "s < of_int k / 100"
proof -
  from assms(1) obtain m :: int where m: "a * 100 = of_int m"
    by (auto simp: whole_cents_iff)
  with assms(3) have "(of_int m :: real) < of_int k" by simp
  then have "m + 1 \<le> k" by simp
  then have "(of_int (m + 1) :: real) \<le> of_int k" by (simp only: of_int_le_iff)
  with m have "a + 1 / 100 \<le> of_int k / 100" by simp
  with assms(2) show ?thesis by arith
qed

lemma segment_names:
  "Premium \<noteq> Regulier" "Premium \<noteq> Occasionnel" "Regulier \<noteq> Occasionnel"
  by (simp_all add: Premium_def Regulier_def Occasionnel_def)



text \<open>
  Claim C4, with the thresholds where the code compares them. For every customer that
  \<open>generate_customer_data\<close> produces, the segment is Premium exactly when the sum of the
  customer's Completed amounts is above 2000, Regular exactly when it is above 500 and at
  most 2000, and Occasional exactly when it is at most 500; the sum is the one
  \<open>Series.sum\<close> returns, before it is rounded. \<open>total_spent\<close> is that sum rounded to cents,
  so a \<open>total_spent\<close> above 2000 is Premium, one between 500 and 2000 is Regular and one
  below 500 is Occasional, while a \<open>total_spent\<close> of exactly 2000.00 is Regular or Premium
  and one of exactly 500.00 is Occasional or Regular, as the sum lies at or below the
  threshold or above it.
\<close>

theorem segment_follows_unrounded_sum:
  "\<forall>c\<in>set (generate_customer_data series_sum t).
     (segment c = Premium \<longleftrightarrow> 2000 < series_sum (completed_amounts t (cust_customer_id c))) \<and>
     (segment c = Regulier \<longleftrightarrow> 500 < series_sum (completed_amounts t (cust_customer_id c))
        \<and> series_sum (completed_amounts t (cust_customer_id c)) \<le> 2000) \<and>
     (segment c = Occasionnel \<longleftrightarrow>
        series_sum (completed_amounts t (cust_customer_id c)) \<le> 500) \<and>
     (2000 < total_spent c \<longrightarrow> segment c = Premium) \<and>
     (500 < total_spent c \<and> total_spent c < 2000 \<longrightarrow> segment c = Regulier) \<and>
     (total_spent c < 500 \<longrightarrow> segment c = Occasionnel) \<and>
     (total_spent c = 2000 \<longrightarrow> segment c = Regulier \<or> segment c = Premium) \<and>
     (total_spent c = 500 \<longrightarrow> segment c = Occasionnel \<or> segment c = Regulier)"
proof
  fix c assume c: "c \<in> set (generate_customer_data series_sum t)"
  define s where "s = series_sum (completed_amounts t (cust_customer_id c))"
  have ts: "total_spent c = round2 s"
    using customer_row(4) [OF c] by (simp add: s_def)
  have seg: "segment c
      = (if 2000 < s then Premium else if 500 < s then Regulier else Occasionnel)"
    using customer_row(5) [OF c] by (simp add: s_def [symmetric] Let_def)
  have cents: "whole_cents (total_spent c)" and near: "\<bar>total_spent c - s\<bar> \<le> 1 / 200"
    unfolding ts by (rule whole_cents_round2, rule round2_near)
  have up: "of_int k / 100 < total_spent c \<Longrightarrow> of_int k / 100 < s" for k
    by (rule above_cents_bound [OF cents near])
  have down: "total_spent c < of_int k / 100 \<Longrightarrow> s < of_int k / 100" for k
    by (rule below_cents_bound [OF cents near])
  have a: "2000 < total_spent c \<Longrightarrow> 2000 < s"
    using up [of 200000] by simp
  have b: "500 < total_spent c \<Longrightarrow> 500 < s"
    using up [of 50000] by simp
  have a': "total_spent c < 2000 \<Longrightarrow> s < 2000"
    using down [of 200000] by simp
  have b': "total_spent c < 500 \<Longrightarrow> s < 500"
    using down [of 50000] by simp
  have c2000: "total_spent c = 2000 \<Longrightarrow> 500 < s"
    using b by simp
  have c500: "total_spent c = 500 \<Longrightarrow> s < 2000"
    using a' by simp
  show "(segment c = Premium \<longleftrightarrow> 2000 < series_sum (completed_amounts t (cust_customer_id c))) \<and>
     (segment c = Regulier \<longleftrightarrow> 500 < series_sum (completed_amounts t (cust_customer_id c))
        \<and> series_sum (completed_amounts t (cust_customer_id c)) \<le> 2000) \<and>
     (segment c = Occasionnel \<longleftrightarrow>
        series_sum (completed_amounts t (cust_customer_id c)) \<le> 500) \<and>
     (2000 < total_spent c \<longrightarrow> segment c = Premium) \<and>
     (500 < total_spent c \<and> total_spent c < 2000 \<longrightarrow> segment c = Regulier) \<and>
     (total_spent c < 500 \<longrightarrow> segment c = Occasionnel) \<and>
     (total_spent c = 2000 \<longrightarrow> segment c = Regulier \<or> segment c = Premium) \<and>
     (total_spent c = 500 \<longrightarrow> segment c = Occasionnel \<or> segment c = Regulier)"
    unfolding s_def [symmetric] seg
    using segment_names a b a' b' c2000 c500 by auto
qed

theorem segment_follows_unrounded_sum_witness:
  "map (\<lambda>c. (total_spent c, segment c)) (generate_customer_data double_sum boundary_df)
     = [(2000, Regulier), (500, Occasionnel), (2000.01, Premium)] \<and>
   list_all (\<lambda>c. (segment c = Premium) =
         (2000 < double_sum (completed_amounts boundary_df (cust_customer_id c))))
     (generate_customer_data double_sum boundary_df) \<and>
   list_all (\<lambda>c. (segment c = Premium) =
         (2000 < double_sum (completed_amounts float_boundary_df (cust_customer_id c))))
     (generate_customer_data double_sum float_boundary_df)"
  using segment_follows_unrounded_sum [of double_sum boundary_df]
    segment_follows_unrounded_sum [of double_sum float_boundary_df]
  by (simp add: list_all_iff customers_boundary)

text \<open>
  Whole-cent amounts summed in binary64: the customer whose amounts are 601.90, 1063.69
  and 334.41 has \<open>total_spent\<close> exactly 2000.00 and is Premium, and the customer whose
  amounts are 329.66, 117.42 and 52.92 has \<open>total_spent\<close> exactly 500.00 and is Regular.
\<close>

theorem segment_at_the_boundaries_in_binary64:
  "generate_customer_data double_sum float_boundary_df =
     [\<lparr>cust_customer_id = ''CUST_0001'', first_purchase_date = Some 738000,
       total_purchases = 3, total_spent = 2000, segment = Premium\<rparr>,
      \<lparr>cust_customer_id = ''CUST_0002'', first_purchase_date = Some 738003,
       total_purchases = 3, total_spent = 500, segment = Regulier\<rparr>] \<and>
   Premium \<noteq> Regulier \<and> Regulier \<noteq> Occasionnel"
  by (intro conjI, rule customers_float_boundary, rule segment_names, rule segment_names)

section \<open>Properties of generate_ecommerce_data\<close>

lemma random_choice_ok: "k < length seq \<Longrightarrow> random_choice seq k = Inr (seq ! k)"
  by (simp add: random_choice_def)

lemma np_random_choice_ok: "k < length a \<Longrightarrow> np_random_choice a p k = Inr (a ! k)"
  by (simp add: np_random_choice_def)

text \<open>Every category is a key of the product catalogue, with six products.\<close>

lemma products_ok:
  assumes "c \<in> set CATEGORIES"
  shows "\<exists>ps. dict_get PRODUCTS c = Inr ps \<and> length ps = 6"
  using assms
  by (auto simp: CATEGORIES_def PRODUCTS_def dict_get_def Electronique_def Vetements_def
      Maison_Jardin_def Sports_Loisirs_def Livres_def)

lemma py_round_ge_floor: "\<lfloor>x\<rfloor> \<le> py_round x"
  by (simp add: py_round_def Let_def)

text \<open>Rounding to cents does not go below a bound that is itself in cents.\<close>

lemma round2_ge:
  assumes "of_int k / 100 \<le> x"
  shows "of_int k / 100 \<le> round2 x"
proof -
  from assms have "of_int k \<le> x * 100" by simp
  then have "k \<le> \<lfloor>x * 100\<rfloor>" by (simp add: le_floor_iff)
  also have "\<dots> \<le> py_round (x * 100)" by (rule py_round_ge_floor)
  finally have "(of_int k :: real) \<le> of_int (py_round (x * 100))" by simp
  then show ?thesis by (simp add: round2_def divide_right_mono)
qed

text \<open>
  A pass whose draws are as the libraries guarantee raises nothing. Its unit price is at
  least 4.50 (the least base price, 5, times the least jitter, 0.9), its quantity at
  least 1, so the rounded total is positive; the row keeps it when Completed and holds 0
  otherwise.
\<close>

lemma generate_row_ok:
  assumes "draws_ok d"
  shows "\<exists>row. generate_row s i d = Inr row \<and> amount_matches_status row \<and>
    whole_cents (total_amount row)"
proof -
  from assms have cat_lt: "rand_category d < length CATEGORIES"
    by (simp add: draws_ok_def CATEGORIES_def)
  define cat where "cat = CATEGORIES ! rand_category d"
  have cat: "random_choice CATEGORIES (rand_category d) = Inr cat"
    using cat_lt by (simp add: random_choice_ok cat_def)
  have "cat \<in> set CATEGORIES" using cat_lt by (simp add: cat_def)
  from products_ok [OF this] obtain ps where ps: "dict_get PRODUCTS cat = Inr ps"
    and len_ps: "length ps = 6" by blast
  from assms len_ps have prod: "random_choice ps (rand_product d) = Inr (ps ! rand_product d)"
    by (simp add: draws_ok_def random_choice_ok)
  define base where "base =
            (if cat = Electronique then random_uniform 50 1200 (rand_base d)
             else if cat = Vetements then random_uniform 15 150 (rand_base d)
             else if cat = Maison_Jardin then random_uniform 10 300 (rand_base d)
             else if cat = Sports_Loisirs then random_uniform 10 500 (rand_base d)
             else random_uniform 5 50 (rand_base d))"
  from assms have u: "0 \<le> rand_base d" and j: "0 \<le> rand_jitter d"
    by (simp_all add: draws_ok_def)
  have base: "5 \<le> base"
    using u unfolding base_def random_uniform_def by auto
  have jit: "9 / 10 \<le> random_uniform 0.9 1.1 (rand_jitter d)"
    using j by (simp add: random_uniform_def)
  have "5 * (9 / 10) \<le> base * random_uniform 0.9 1.1 (rand_jitter d)"
    using base jit by (intro mult_mono) simp_all
  then have "of_int 450 / 100 \<le> base * random_uniform 0.9 1.1 (rand_jitter d)" by simp
  from round2_ge [OF this]
  have price: "9 / 2 \<le> round2 (base * random_uniform 0.9 1.1 (rand_jitter d))" by simp
  define price where "price = round2 (base * random_uniform 0.9 1.1 (rand_jitter d))"
  from assms have q_lt: "np_quantity d < length [1, 2, 3, 4, 5 :: int]"
    by (simp add: draws_ok_def)
  define q where "q = [1, 2, 3, 4, 5 :: int] ! np_quantity d"
  have q: "np_random_choice [1, 2, 3, 4, 5] p (np_quantity d) = Inr q" for p
    using q_lt unfolding q_def by (rule np_random_choice_ok)
  have "q \<in> set [1, 2, 3, 4, 5 :: int]" unfolding q_def using q_lt by (rule nth_mem)
  then have q1: "1 \<le> q" by auto
  have "of_int 1 / 100 \<le> price * of_int q"
  proof -
    have "9 / 2 * 1 \<le> price * of_int q"
      using price q1 unfolding price_def by (intro mult_mono) simp_all
    then show ?thesis by simp
  qed
  from round2_ge [OF this] have total: "0 < round2 (price * of_int q)" by simp
  from assms have reg: "random_choice REGIONS (rand_region d) = Inr (REGIONS ! rand_region d)"
    by (simp add: draws_ok_def random_choice_ok REGIONS_def)
  from assms have pay: "random_choice PAYMENT_METHODS (rand_payment d)
      = Inr (PAYMENT_METHODS ! rand_payment d)"
    by (simp add: draws_ok_def random_choice_ok PAYMENT_METHODS_def)
  define st where "st = [Complete, Annule, Rembourse] ! np_status d"
  from assms have st: "np_random_choice [Complete, Annule, Rembourse] p (np_status d) = Inr st"
    for p
    by (simp add: draws_ok_def np_random_choice_ok st_def)
  have "\<exists>tid dt cid. generate_row s i d =
      Inr \<lparr>transaction_id = tid, date = dt, customer_id = cid, category = cat,
           product = ps ! rand_product d, quantity = q, unit_price = price,
           total_amount = (if st = Complete then round2 (price * of_int q) else 0),
           region = REGIONS ! rand_region d, payment_method = PAYMENT_METHODS ! rand_payment d,
           status = st\<rparr>"
    by (simp add: generate_row_def Let_def ebind_def cat ps prod q reg pay st
        base_def price_def)
  then show ?thesis
    using total by (auto simp: amount_matches_status_def whole_cents_round2 whole_cents_0)
qed

text \<open>The loop, from any rows already collected: it appends one row for each index.\<close>

lemma generate_loop_ok:
  assumes "\<forall>i\<in>set js. draws_ok (rng i)"
  shows "\<exists>rows. generate_loop s rng js data = Inr (data @ rows) \<and> length rows = length js \<and>
     (\<forall>row\<in>set rows. amount_matches_status row \<and> whole_cents (total_amount row))"
  using assms
proof (induction js arbitrary: data)
  case Nil
  then show ?case by simp
next
  case (Cons j js)
  then have "draws_ok (rng j)" by simp
  from generate_row_ok [OF this] obtain row where row: "generate_row s j (rng j) = Inr row"
    and ok: "amount_matches_status row" "whole_cents (total_amount row)" by blast
  from Cons obtain rows
    where "generate_loop s rng js (data @ [row]) = Inr ((data @ [row]) @ rows)"
      and "length rows = length js"
      and "\<forall>r\<in>set rows. amount_matches_status r \<and> whole_cents (total_amount r)"
    by fastforce
  then have "generate_loop s rng (j # js) data = Inr (data @ (row # rows)) \<and>
     length (row # rows) = length (j # js) \<and>
     (\<forall>r\<in>set (row # rows). amount_matches_status r \<and> whole_cents (total_amount r))"
    using row ok by simp
  then show ?case by blast
qed

lemma generate_ok:
  assumes "0 < n" and "\<forall>i<nat n. draws_ok (rng i)"
  shows "\<exists>df. generate_ecommerce_data now rng n = Inr df \<and> int (length df) = n \<and>
     (\<forall>row\<in>set df. amount_matches_status row \<and> whole_cents (total_amount row))"
proof -
  from assms(2) have "\<forall>i\<in>set [0..<nat n]. draws_ok (rng i)" by simp
  from generate_loop_ok [OF this, of "minus_days now 730" "[]"]
  obtain rows where loop: "generate_loop (minus_days now 730) rng [0..<nat n] [] = Inr rows"
    and len: "length rows = nat n"
    and ok: "\<forall>row\<in>set rows. amount_matches_status row \<and> whole_cents (total_amount row)"
    by auto
  from len assms(1) have ne: "rows \<noteq> []" by auto
  have "generate_ecommerce_data now rng n = Inr (sort_key date rows)"
    using loop ne by (simp add: generate_ecommerce_data_def)
  with ok len assms(1) show ?thesis by simp
qed

text \<open>The generated amounts are whole numbers of cents.\<close>

lemma generated_amounts_are_whole_cents:
  assumes "0 < n" and "\<forall>i<nat n. draws_ok (rng i)"
    and "generate_ecommerce_data now rng n = Inr df" and "x \<in> set df"
  shows "whole_cents (total_amount x)"
  using generate_ok [OF assms(1, 2), of now] assms(3, 4) by auto

subsection \<open>The generator on the example draws\<close>

lemma format_examples: "format_d 6 1 = ''000001''" "format_d 4 42 = ''0042''"
  by code_simp+

lemma range_examples: "[0..<nat 1] = [0]" "[0..<nat 2] = [0, 1]"
  by code_simp+

lemma example_rng_ok: "draws_ok (example_rng i)"
  by (simp add: example_rng_def draws_ok_def)

text \<open>
  The first pass: offset \<open>int(123.7) = 123\<close> days, base price \<open>5 + 45 * 0.5 = 27.5\<close>,
  jitter \<open>0.9 + 0.2 * 0.5 = 1.0\<close>, quantity 2, total 55.
\<close>

lemma example_row_generated:
  "generate_row s 0 (example_rng 0) = Inr (example_row (dt_day s + 123))"
  by (simp add: generate_row_def example_rng_def example_row_def Let_def ebind_def
      random_choice_def np_random_choice_def dict_get_def random_uniform_def
      random_randint_def round2_def py_round_def py_int_def plus_days_def strftime_ymd_def
      format_examples CATEGORIES_def PRODUCTS_def REGIONS_def PAYMENT_METHODS_def
      Electronique_def Vetements_def Maison_Jardin_def Sports_Loisirs_def Livres_def
      Complete_def Annule_def Rembourse_def)

lemma example_generated:
  "generate_ecommerce_data now example_rng 1 = Inr [example_row (dt_day now - 607)]"
  by (simp add: generate_ecommerce_data_def range_examples example_row_generated
      minus_days_def)

text \<open>
  Claim C1. For every positive \<open>n\<close>, with draws as the libraries guarantee them,
  \<open>generate_ecommerce_data\<close> returns a frame of \<open>n\<close> rows, and in every row
  \<open>total_amount\<close> is 0 exactly when the status is not Completed; a Completed row has a
  positive \<open>total_amount\<close>.
\<close>

theorem generated_amount_zero_iff_not_completed:
  assumes "0 < n" and "\<forall>i<nat n. draws_ok (rng i)"
  shows "\<exists>df. generate_ecommerce_data now rng n = Inr df \<and> int (length df) = n \<and>
     (\<forall>row\<in>set df. (total_amount row = 0 \<longleftrightarrow> status row \<noteq> Complete) \<and>
        (status row = Complete \<longrightarrow> 0 < total_amount row))"
proof -
  from generate_ok [OF assms, of now]
  obtain df where df: "generate_ecommerce_data now rng n = Inr df" "int (length df) = n"
    and ok: "\<forall>row\<in>set df. amount_matches_status row" by blast
  from ok have "\<forall>row\<in>set df. (total_amount row = 0 \<longleftrightarrow> status row \<noteq> Complete) \<and>
        (status row = Complete \<longrightarrow> 0 < total_amount row)"
    by (auto simp: amount_matches_status_def split: if_splits)
  with df show ?thesis by blast
qed

theorem generated_amount_zero_iff_not_completed_witness:
  "0 < (2::int) \<and> draws_ok (example_rng 0) \<and> draws_ok (example_rng 1) \<and>
   (\<exists>df. generate_ecommerce_data example_now example_rng 2 = Inr df \<and> int (length df) = 2 \<and>
     (\<forall>row\<in>set df. (total_amount row = 0 \<longleftrightarrow> status row \<noteq> Complete) \<and>
        (status row = Complete \<longrightarrow> 0 < total_amount row)))"
  using generated_amount_zero_iff_not_completed [of 2 example_rng example_now]
  by (simp add: example_rng_ok)

text \<open>
  Claim C8, with the exception the code raises. For every \<open>n\<close> that is zero or negative,
  \<open>generate_ecommerce_data\<close> returns no frame: the loop runs no pass, the frame built
  from no row has no column, and sorting it by date raises \<open>KeyError('date')\<close>. The
  function does not check its argument.
\<close>

theorem generate_nonpositive_raises_key_error:
  assumes "n \<le> 0"
  shows "generate_ecommerce_data now rng n = Inl (KeyError ''date'')"
  using assms by (simp add: generate_ecommerce_data_def)

theorem generate_nonpositive_raises_key_error_witness:
  "(- 5 :: int) \<le> 0 \<and>
   generate_ecommerce_data example_now example_rng (- 5) = Inl (KeyError ''date'')"
proof -
  have "(- 5 :: int) \<le> 0" by simp
  from generate_nonpositive_raises_key_error [OF this, of example_now example_rng]
  show ?thesis by simp
qed

text \<open>For zero transactions the exception is the lookup failure of the date column.\<close>

theorem generate_zero_raises_key_error:
  "generate_ecommerce_data example_now example_rng 0 = Inl (KeyError ''date'')"
  by (simp add: generate_ecommerce_data_def)

lemma generate_row_day: "dt_day s1 = dt_day s2 \<Longrightarrow> generate_row s1 i d = generate_row s2 i d"
  by (simp add: generate_row_def strftime_ymd_def plus_days_def)

lemma generate_loop_day:
  "dt_day s1 = dt_day s2 \<Longrightarrow> generate_loop s1 rng js data = generate_loop s2 rng js data"
  by (induction js arbitrary: data)
    (simp_all add: generate_row_day [of s1 s2] split: sum.split)

lemma generate_day:
  assumes "dt_day now1 = dt_day now2"
  shows "generate_ecommerce_data now1 rng n = generate_ecommerce_data now2 rng n"
proof -
  from assms have "dt_day (minus_days now1 730) = dt_day (minus_days now2 730)"
    by (simp add: minus_days_def)
  then have "generate_loop (minus_days now1 730) rng [0..<nat n] []
      = generate_loop (minus_days now2 730) rng [0..<nat n] []"
    by (rule generate_loop_day)
  then show ?thesis by (simp add: generate_ecommerce_data_def Let_def)
qed

text \<open>
  Claim C9, for runs started on the same calendar day. The seeds are fixed when the module
  is loaded, so a run is determined by its draws, by \<open>n\<close> and by the clock, which the
  start date is read from. Two runs with the same draws and the same \<open>n\<close> whose clocks
  show the same day, at whatever time of day, produce the same transaction table and the
  same customer table, or raise the same exception.
\<close>

theorem generate_tables_same_day_deterministic:
  assumes "dt_day now1 = dt_day now2"
  shows "generate_tables series_sum now1 rng n = generate_tables series_sum now2 rng n"
  unfolding generate_tables_def by (simp only: generate_day [OF assms])

theorem generate_tables_same_day_deterministic_witness:
  "dt_day example_now = dt_day (example_now\<lparr>dt_time := 43200000000\<rparr>) \<and>
   example_now \<noteq> example_now\<lparr>dt_time := 43200000000\<rparr> \<and>
   generate_tables double_sum example_now example_rng 2
     = generate_tables double_sum (example_now\<lparr>dt_time := 43200000000\<rparr>) example_rng 2"
  using generate_tables_same_day_deterministic
    [of example_now "example_now\<lparr>dt_time := 43200000000\<rparr>" double_sum example_rng 2]
  by (simp add: example_now_def)

text \<open>
  Two runs with the same draws and the same \<open>n\<close> on consecutive days differ: the date of
  every row moves with the clock.
\<close>

theorem generate_tables_depend_on_the_clock:
  "generate_tables double_sum \<lparr>dt_day = 739000, dt_time = 0\<rparr> example_rng 1
     \<noteq> generate_tables double_sum \<lparr>dt_day = 739001, dt_time = 0\<rparr> example_rng 1"
  by (simp add: generate_tables_def ebind_def example_generated example_row_def)

end
